theory Spec2Isabelle
  imports Main
begin

section \<open>Shared data\<close>

text \<open>
  The application is three TypeScript modules: the server actions of
  \<^verbatim>\<open>auth-actions\<close> (\<^verbatim>\<open>login\<close>, \<^verbatim>\<open>register\<close>, \<^verbatim>\<open>logout\<close>,
  \<^verbatim>\<open>getCurrentUser\<close>, \<^verbatim>\<open>getSession\<close>), the \<^verbatim>\<open>LoginPage\<close> component and
  the \<^verbatim>\<open>PollActions\<close> component. JavaScript's \<^verbatim>\<open>null\<close> is \<open>None\<close>; a rejected
  promise (an exception that leaves an \<^verbatim>\<open>await\<close>) is the left injection of a sum.
\<close>

datatype thrown = Thrown string

text \<open>
  The user object of the identity provider. The source reads \<^verbatim>\<open>user.id\<close> only; the
  e-mail address and the profile metadata are the fields sign-up fills in. The field
  \<^verbatim>\<open>id\<close> is written \<open>uid\<close>, since \<open>id\<close> is the identity function of HOL.
\<close>

record user =
  uid :: string
  user_email :: string
  user_metadata :: "(string \<times> string) list"

text \<open>
  What a client component does to the world outside its own state: a call of a server
  action, an assignment to \<^verbatim>\<open>window.location.href\<close> (the browser loads the document
  from scratch), a click on a \<^verbatim>\<open>next/link\<close> link (a client-side route change with no
  document load), \<^verbatim>\<open>window.confirm\<close> and \<^verbatim>\<open>window.location.reload\<close>.
\<close>

record credentials =
  email :: string
  password :: string

datatype effect =
    CallLogin credentials
  | SetLocationHref string
  | LinkNavigate string
  | Confirm string
  | CallDeletePoll string
  | LocationReload


section \<open>The server actions\<close>

text \<open>
  \<^verbatim>\<open>LoginFormData\<close> is the record \<open>credentials\<close>; \<^verbatim>\<open>RegisterFormData\<close> adds the
  display name.
\<close>

record register_form_data = credentials +
  name :: string

text \<open>
  The argument of \<^verbatim>\<open>supabase.auth.signUp\<close>, the object
  \<^verbatim>\<open>{email, password, options: {data: {...}}}\<close>. The field \<open>options_data\<close> is the
  object at the path \<^verbatim>\<open>options.data\<close>, as the list of its properties.
\<close>

record sign_up_credentials = credentials +
  options_data :: "(string \<times> string) list"

datatype auth_error = AuthError (message: string)

text \<open>
  What an operation of the identity provider resolves with: \<^verbatim>\<open>{data, error}\<close>. The
  field \<^verbatim>\<open>error\<close> is written \<open>err\<close>; the name \<open>error\<close> is kept for the field of
  \<^verbatim>\<open>AuthResult\<close> below.
\<close>

record 'd response =
  data :: 'd
  err :: "auth_error option"

record user_data =
  user :: "user option"

record 'sess session_data =
  session :: "'sess option"

text \<open>
  The client \<^verbatim>\<open>createClient()\<close> returns is not part of the sources: it is a parameter,
  a record of the five operations of \<^verbatim>\<open>supabase.auth\<close> the actions call. Each takes
  the provider's state \<open>'s\<close> and returns the new one; each either resolves with a
  response or rejects. The session type \<open>'sess\<close> is opaque. Sign-in and sign-up resolve
  with \<^verbatim>\<open>data: {user, session}\<close>, sign-out with no data.
\<close>

record ('s, 'sess) adapter =
  auth_signInWithPassword ::
    "credentials \<Rightarrow> 's \<Rightarrow> (thrown + (user option \<times> 'sess option) response) \<times> 's"
  auth_signUp ::
    "sign_up_credentials \<Rightarrow> 's \<Rightarrow> (thrown + (user option \<times> 'sess option) response) \<times> 's"
  auth_signOut :: "'s \<Rightarrow> (thrown + unit response) \<times> 's"
  auth_getUser :: "'s \<Rightarrow> (thrown + user_data response) \<times> 's"
  auth_getSession :: "'s \<Rightarrow> (thrown + 'sess session_data response) \<times> 's"

text \<open>
  The server side as the actions see it: the provider's state, and the log of the
  operations invoked on the provider, oldest first. \<open>invoke\<close> runs one operation and
  appends its entry to the log.
\<close>

datatype adapter_call =
    SignInWithPassword credentials
  | SignUp sign_up_credentials
  | SignOut
  | GetUser
  | GetSession

record 's server =
  adapter_state :: 's
  calls :: "adapter_call list"

definition invoke :: "adapter_call \<Rightarrow> ('s \<Rightarrow> 'r \<times> 's) \<Rightarrow> 's server \<Rightarrow> 'r \<times> 's server" where
  "invoke c operation w =
     (case operation (adapter_state w) of
        (r, s') \<Rightarrow> (r, \<lparr>adapter_state = s', calls = calls w @ [c]\<rparr>))"

text \<open>\<^verbatim>\<open>AuthResult\<close>, the object \<^verbatim>\<open>{error: string | null}\<close>.\<close>

record auth_result =
  error :: "string option"

text \<open>
  \<^verbatim>\<open>login\<close>. The test \<^verbatim>\<open>if (error)\<close> is on an object or \<^verbatim>\<open>null\<close>: it holds exactly
  when there is an error object.
\<close>

definition login :: "('s, 'sess) adapter \<Rightarrow> credentials \<Rightarrow> 's server \<Rightarrow> (thrown + auth_result) \<times> 's server" where
  "login supabase d w =
     (case invoke (SignInWithPassword \<lparr>email = email d, password = password d\<rparr>)
             (auth_signInWithPassword supabase \<lparr>email = email d, password = password d\<rparr>) w of
        (Inl t, w') \<Rightarrow> (Inl t, w')
      | (Inr r, w') \<Rightarrow>
          (case err r of
             Some e \<Rightarrow> (Inr \<lparr>error = Some (message e)\<rparr>, w')
           | None \<Rightarrow> (Inr \<lparr>error = None\<rparr>, w')))"

definition register :: "('s, 'sess) adapter \<Rightarrow> register_form_data \<Rightarrow> 's server \<Rightarrow> (thrown + auth_result) \<times> 's server" where
  "register supabase d w =
     (case invoke
             (SignUp \<lparr>email = email d, password = password d, options_data = [(''name'', name d)]\<rparr>)
             (auth_signUp supabase
               \<lparr>email = email d, password = password d, options_data = [(''name'', name d)]\<rparr>) w of
        (Inl t, w') \<Rightarrow> (Inl t, w')
      | (Inr r, w') \<Rightarrow>
          (case err r of
             Some e \<Rightarrow> (Inr \<lparr>error = Some (message e)\<rparr>, w')
           | None \<Rightarrow> (Inr \<lparr>error = None\<rparr>, w')))"

definition logout :: "('s, 'sess) adapter \<Rightarrow> 's server \<Rightarrow> (thrown + auth_result) \<times> 's server" where
  "logout supabase w =
     (case invoke SignOut (auth_signOut supabase) w of
        (Inl t, w') \<Rightarrow> (Inl t, w')
      | (Inr r, w') \<Rightarrow>
          (case err r of
             Some e \<Rightarrow> (Inr \<lparr>error = Some (message e)\<rparr>, w')
           | None \<Rightarrow> (Inr \<lparr>error = None\<rparr>, w')))"

text \<open>
  \<^verbatim>\<open>getCurrentUser\<close> and \<^verbatim>\<open>getSession\<close> take \<^verbatim>\<open>data\<close> from the response and never
  look at its \<^verbatim>\<open>error\<close>.
\<close>

definition getCurrentUser :: "('s, 'sess) adapter \<Rightarrow> 's server \<Rightarrow> (thrown + user option) \<times> 's server" where
  "getCurrentUser supabase w =
     (case invoke GetUser (auth_getUser supabase) w of
        (Inl t, w') \<Rightarrow> (Inl t, w')
      | (Inr r, w') \<Rightarrow> (Inr (user (data r)), w'))"

definition getSession :: "('s, 'sess) adapter \<Rightarrow> 's server \<Rightarrow> (thrown + 'sess option) \<times> 's server" where
  "getSession supabase w =
     (case invoke GetSession (auth_getSession supabase) w of
        (Inl t, w') \<Rightarrow> (Inl t, w')
      | (Inr r, w') \<Rightarrow> (Inr (session (data r)), w'))"

text \<open>
  The provider's half of the sign-up contract at one call: a sign-up that succeeds
  resolves with the user it created, and that user's metadata are the \<^verbatim>\<open>options.data\<close>
  of the call.
\<close>

definition attaches_metadata :: "('s, 'sess) adapter \<Rightarrow> sign_up_credentials \<Rightarrow> 's \<Rightarrow> bool" where
  "attaches_metadata supabase a s =
     (case fst (auth_signUp supabase a s) of
        Inl _ \<Rightarrow> True
      | Inr r \<Rightarrow>
          (case err r of
             Some _ \<Rightarrow> True
           | None \<Rightarrow>
               (case fst (data r) of
                  None \<Rightarrow> False
                | Some u \<Rightarrow> user_metadata u = options_data a)))"

text \<open>
  Two statements about the provider at one state: it reports that there is no session,
  and, its half of the sign-out contract, where it reports no session its sign-out
  resolves with no error.
\<close>

definition no_session :: "('s, 'sess) adapter \<Rightarrow> 's \<Rightarrow> bool" where
  "no_session supabase s =
     (case fst (auth_getSession supabase s) of
        Inl _ \<Rightarrow> False
      | Inr r \<Rightarrow> session (data r) = None)"

definition signs_out_without_session :: "('s, 'sess) adapter \<Rightarrow> 's \<Rightarrow> bool" where
  "signs_out_without_session supabase s =
     (if no_session supabase s
      then (case fst (auth_signOut supabase s) of
              Inl _ \<Rightarrow> False
            | Inr r \<Rightarrow> err r = None)
      else True)"


section \<open>An identity provider in memory\<close>

text \<open>
  A small provider to run the actions against at concrete inputs: the accounts with
  their passwords, and the user of the current session (the session is its user). It
  stands for no part of the sources.
\<close>

record memory =
  accounts :: "(credentials \<times> user) list"
  current :: "user option"

definition memory_signIn ::
    "credentials \<Rightarrow> memory \<Rightarrow> (thrown + (user option \<times> user option) response) \<times> memory" where
  "memory_signIn c s =
     (case map_of (accounts s) c of
        Some u \<Rightarrow> (Inr \<lparr>data = (Some u, Some u), err = None\<rparr>, s\<lparr>current := Some u\<rparr>)
      | None \<Rightarrow>
          (Inr \<lparr>data = (None, None), err = Some (AuthError ''Invalid login credentials'')\<rparr>, s))"

definition memory_signUp ::
    "sign_up_credentials \<Rightarrow> memory \<Rightarrow> (thrown + (user option \<times> user option) response) \<times> memory" where
  "memory_signUp a s =
     (if email a \<in> set (map (\<lambda>(c, u). email c) (accounts s))
      then (Inr \<lparr>data = (None, None), err = Some (AuthError ''User already registered'')\<rparr>, s)
      else
        (let u = \<lparr>uid = email a, user_email = email a, user_metadata = options_data a\<rparr>
         in (Inr \<lparr>data = (Some u, Some u), err = None\<rparr>,
             \<lparr>accounts = accounts s @ [(\<lparr>email = email a, password = password a\<rparr>, u)],
              current = Some u\<rparr>)))"

definition memory_adapter :: "(memory, user) adapter" where
  "memory_adapter =
     \<lparr>auth_signInWithPassword = memory_signIn,
      auth_signUp = memory_signUp,
      auth_signOut = (\<lambda>s. (Inr \<lparr>data = (), err = None\<rparr>, s\<lparr>current := None\<rparr>)),
      auth_getUser =
        (\<lambda>s. (Inr \<lparr>data = \<lparr>user = current s\<rparr>,
                    err = (case current s of
                             None \<Rightarrow> Some (AuthError ''Auth session missing!'')
                           | Some _ \<Rightarrow> None)\<rparr>, s)),
      auth_getSession = (\<lambda>s. (Inr \<lparr>data = \<lparr>session = current s\<rparr>, err = None\<rparr>, s))\<rparr>"

text \<open>
  The same provider cut off from its server: a sign-out that has a session to revoke
  fails, a sign-out with no session has nothing to revoke and succeeds.
\<close>

definition offline_adapter :: "(memory, user) adapter" where
  "offline_adapter =
     memory_adapter
       \<lparr>auth_signOut :=
          (\<lambda>s. case current s of
                  None \<Rightarrow> (Inr \<lparr>data = (), err = None\<rparr>, s)
                | Some _ \<Rightarrow> (Inr \<lparr>data = (), err = Some (AuthError ''Failed to fetch'')\<rparr>, s))\<rparr>"


section \<open>The component LoginPage\<close>

text \<open>
  The component's state, \<^verbatim>\<open>const [error, setError] = useState<string | null>(null)\<close>
  and \<^verbatim>\<open>const [loading, setLoading] = useState(false)\<close>. The state \<^verbatim>\<open>error\<close> is
  written \<open>page_error\<close>.
\<close>

record login_page =
  page_error :: "string option"
  loading :: bool

definition initial_page :: login_page where
  "initial_page = \<lparr>page_error = None, loading = False\<rparr>"

text \<open>
  JavaScript's truthiness of a value of type \<^verbatim>\<open>string | null | undefined\<close>: \<^verbatim>\<open>null\<close>,
  \<^verbatim>\<open>undefined\<close> and the empty string are falsy, every other string is truthy.
\<close>

definition truthy :: "string option \<Rightarrow> bool" where
  "truthy v = (case v of None \<Rightarrow> False | Some s \<Rightarrow> s \<noteq> [])"

text \<open>
  What the form shows of the state: the error paragraph of
  \<^verbatim>\<open>{error && <p>{error}</p>}\<close>, and the submit button with \<^verbatim>\<open>disabled={loading}\<close> and
  its label \<^verbatim>\<open>{loading ? "Logging in..." : "Login"}\<close>.
\<close>

record login_view =
  error_text :: "string option"
  button_disabled :: bool
  button_label :: string

definition render :: "login_page \<Rightarrow> login_view" where
  "render st =
     \<lparr>error_text = (if truthy (page_error st) then page_error st else None),
      button_disabled = loading st,
      button_label = (if loading st then ''Logging in...'' else ''Login'')\<rparr>"

text \<open>
  \<^verbatim>\<open>handleSubmit\<close> runs in two parts. The first is one run of the handler on a submit
  event that has been delivered to the form, up to the \<^verbatim>\<open>await\<close>: it sets the two
  states, reads the two fields of the form and calls \<^verbatim>\<open>login\<close>. \<open>form\<close> holds the
  values of the inputs named \<^verbatim>\<open>email\<close> and \<^verbatim>\<open>password\<close>. The handler tests nothing:
  whether an event is raised at all is the browser's matter (both inputs are
  \<^verbatim>\<open>required\<close>, the first is of \<^verbatim>\<open>type="email"\<close>, and the submit button is disabled
  while \<^verbatim>\<open>loading\<close> is rendered true), and is no part of this function. The state
  returned is the one React renders next. The handler reads neither state and sets both
  to constants, so a run has the same effect whatever the state it starts from.
\<close>

definition handleSubmit :: "credentials \<Rightarrow> login_page \<Rightarrow> login_page \<times> effect list" where
  "handleSubmit form st =
     (st\<lparr>loading := True, page_error := None\<rparr>,
      [CallLogin \<lparr>email = email form, password = password form\<rparr>])"

text \<open>
  The second part runs when the awaited call settles. When it rejects, the exception
  leaves the handler and nothing more runs. When it resolves, \<open>result\<close> is the value
  (\<open>None\<close> for \<^verbatim>\<open>undefined\<close>), \<^verbatim>\<open>result?.error\<close> is tested for truthiness, and either
  the two states are set or \<^verbatim>\<open>window.location.href\<close> is assigned.
\<close>

definition handleSubmit_resume ::
    "thrown + auth_result option \<Rightarrow> login_page \<Rightarrow> login_page \<times> effect list" where
  "handleSubmit_resume settled st =
     (case settled of
        Inl _ \<Rightarrow> (st, [])
      | Inr result \<Rightarrow>
          (let e = (case result of None \<Rightarrow> None | Some r \<Rightarrow> error r)
           in if truthy e
              then (st\<lparr>page_error := e, loading := False\<rparr>, [])
              else (st, [SetLocationHref ''/polls''])))"


section \<open>The component PollActions\<close>

text \<open>
  \<^verbatim>\<open>interface Poll { id: string; question: string; options: any[]; user_id: string }\<close>.
  The field \<^verbatim>\<open>id\<close> is written \<open>pid\<close>; the options are of any type \<open>'o\<close>.
\<close>

record 'o poll =
  pid :: string
  question :: string
  options :: "'o list"
  user_id :: string

text \<open>
  The guard of line 78, \<^verbatim>\<open>user && user.id === poll.user_id\<close>. The source writes it in
  line; the specification calls it \<^verbatim>\<open>canModify\<close>. An object is truthy and \<^verbatim>\<open>null\<close> is
  not; \<^verbatim>\<open>===\<close> on two strings is equality.
\<close>

definition canModify :: "user option \<Rightarrow> 'o poll \<Rightarrow> bool" where
  "canModify currentUser p =
     (case currentUser of None \<Rightarrow> False | Some u \<Rightarrow> uid u = user_id p)"

text \<open>
  What the component renders: the card that links to the poll, and the two mutation
  controls when the guard holds. React renders nothing for \<^verbatim>\<open>null\<close> and \<^verbatim>\<open>false\<close>.
\<close>

datatype element =
    PollCard string string nat
  | EditButton string
  | DeleteButton

definition PollActions :: "user option \<Rightarrow> 'o poll \<Rightarrow> element list" where
  "PollActions currentUser p =
     PollCard (''/polls/'' @ pid p) (question p) (length (options p)) #
     (if canModify currentUser p
      then [EditButton (''/polls/'' @ pid p @ ''/edit''), DeleteButton]
      else [])"

definition mutation_controls :: "element list \<Rightarrow> element list" where
  "mutation_controls els =
     filter (\<lambda>e. case e of PollCard _ _ _ \<Rightarrow> False | _ \<Rightarrow> True) els"

text \<open>
  \<^verbatim>\<open>handleDelete\<close>, the click handler of the delete button. \<open>answer\<close> is what the
  blocking prompt \<^verbatim>\<open>confirm\<close> returns and \<open>deleted\<close> how the awaited \<^verbatim>\<open>deletePoll\<close>
  settles: when it rejects, the exception leaves the handler before the reload. The
  result is the sequence of effects, in program order.
\<close>

definition handleDelete :: "'o poll \<Rightarrow> bool \<Rightarrow> thrown + unit \<Rightarrow> effect list" where
  "handleDelete p answer deleted =
     Confirm ''Are you sure you want to delete this poll?'' #
     (if answer
      then CallDeletePoll (pid p) #
           (case deleted of Inl _ \<Rightarrow> [] | Inr _ \<Rightarrow> [LocationReload])
      else [])"


section \<open>Properties of the server actions\<close>

lemma invoke_eq:
  "invoke c operation \<lparr>adapter_state = s, calls = cs\<rparr> =
     (fst (operation s), \<lparr>adapter_state = snd (operation s), calls = cs @ [c]\<rparr>)"
  by (simp add: invoke_def split: prod.splits)

text \<open>
  C2. For every credential pair, every provider and every state of it: when the
  provider's password sign-in resolves with an error, \<^verbatim>\<open>login\<close> returns \<^verbatim>\<open>{error: m}\<close>
  with \<open>m\<close> the message of that error, unchanged; when it resolves with no error,
  \<^verbatim>\<open>login\<close> returns \<^verbatim>\<open>{error: null}\<close>; and every result \<^verbatim>\<open>login\<close> returns is one of
  the two: its \<^verbatim>\<open>error\<close> is \<^verbatim>\<open>null\<close> or the provider's message, nothing else.
\<close>

theorem login_passes_error_through:
  fixes A :: "('s, 'sess) adapter"
  shows "(fst (auth_signInWithPassword A \<lparr>email = email d, password = password d\<rparr> s) = Inr r \<and> err r = None \<longrightarrow>
            fst (login A d \<lparr>adapter_state = s, calls = cs\<rparr>) = Inr \<lparr>error = None\<rparr>)
       \<and> (fst (auth_signInWithPassword A \<lparr>email = email d, password = password d\<rparr> s) = Inr r \<and> err r = Some e \<longrightarrow>
            fst (login A d \<lparr>adapter_state = s, calls = cs\<rparr>) = Inr \<lparr>error = Some (message e)\<rparr>)
       \<and> (fst (login A d \<lparr>adapter_state = s, calls = cs\<rparr>) = Inr res \<longrightarrow>
            (\<exists>r'. fst (auth_signInWithPassword A \<lparr>email = email d, password = password d\<rparr> s) = Inr r'
                  \<and> error res = map_option message (err r')))"
  by (auto simp: login_def invoke_eq split: sum.splits option.splits)

theorem login_passes_error_through_witness:
  "fst (login memory_adapter \<lparr>email = ''a@x.com'', password = ''wrong''\<rparr>
         \<lparr>adapter_state =
            \<lparr>accounts = [(\<lparr>email = ''a@x.com'', password = ''secret''\<rparr>,
                          \<lparr>uid = ''1'', user_email = ''a@x.com'', user_metadata = []\<rparr>)],
             current = None\<rparr>,
          calls = []\<rparr>)
     = Inr \<lparr>error = Some ''Invalid login credentials''\<rparr>
   \<and> fst (login memory_adapter \<lparr>email = ''a@x.com'', password = ''secret''\<rparr>
         \<lparr>adapter_state =
            \<lparr>accounts = [(\<lparr>email = ''a@x.com'', password = ''secret''\<rparr>,
                          \<lparr>uid = ''1'', user_email = ''a@x.com'', user_metadata = []\<rparr>)],
             current = None\<rparr>,
          calls = []\<rparr>)
     = Inr \<lparr>error = None\<rparr>"
  using
    login_passes_error_through
      [where A = memory_adapter and d = "\<lparr>email = ''a@x.com'', password = ''wrong''\<rparr>"
         and s = "\<lparr>accounts = [(\<lparr>email = ''a@x.com'', password = ''secret''\<rparr>,
                         \<lparr>uid = ''1'', user_email = ''a@x.com'', user_metadata = []\<rparr>)],
            current = None\<rparr>"
         and r = "\<lparr>data = (None, None), err = Some (AuthError ''Invalid login credentials'')\<rparr>"
         and e = "AuthError ''Invalid login credentials''" and cs = "[]"]
    login_passes_error_through
      [where A = memory_adapter and d = "\<lparr>email = ''a@x.com'', password = ''secret''\<rparr>"
         and s = "\<lparr>accounts = [(\<lparr>email = ''a@x.com'', password = ''secret''\<rparr>,
                         \<lparr>uid = ''1'', user_email = ''a@x.com'', user_metadata = []\<rparr>)],
            current = None\<rparr>"
         and r = "\<lparr>data = (Some \<lparr>uid = ''1'', user_email = ''a@x.com'', user_metadata = []\<rparr>,
                    Some \<lparr>uid = ''1'', user_email = ''a@x.com'', user_metadata = []\<rparr>),
            err = None\<rparr>"
         and cs = "[]"]
  by (simp add: memory_adapter_def memory_signIn_def)

text \<open>
  C6. For every registration input, \<^verbatim>\<open>register\<close> hands the display name to the provider
  in its one sign-up call, as the property \<^verbatim>\<open>name\<close> of \<^verbatim>\<open>options.data\<close>: the log grows
  by that call and by nothing else, and the provider's state after \<^verbatim>\<open>register\<close> is the
  state that call left, so no write follows it. When the registration succeeds, with a
  provider that attaches the metadata of the call to the user it creates, the name is
  read from the created user's metadata with no further call.
\<close>

theorem register_attaches_name:
  fixes A :: "('s, 'sess) adapter"
  shows "snd (register A d \<lparr>adapter_state = s, calls = cs\<rparr>) =
           \<lparr>adapter_state =
              snd (auth_signUp A \<lparr>email = email d, password = password d,
                                   options_data = [(''name'', name d)]\<rparr> s),
            calls = cs @ [SignUp \<lparr>email = email d, password = password d,
                                  options_data = [(''name'', name d)]\<rparr>]\<rparr>
       \<and> (attaches_metadata A \<lparr>email = email d, password = password d,
                                 options_data = [(''name'', name d)]\<rparr> s
            \<and> fst (register A d \<lparr>adapter_state = s, calls = cs\<rparr>) = Inr \<lparr>error = None\<rparr> \<longrightarrow>
            (\<exists>r u. fst (auth_signUp A \<lparr>email = email d, password = password d,
                                        options_data = [(''name'', name d)]\<rparr> s) = Inr r
                  \<and> fst (data r) = Some u
                  \<and> map_of (user_metadata u) ''name'' = Some (name d)))"
  by (auto simp: register_def invoke_eq attaches_metadata_def split: sum.splits option.splits)

theorem register_attaches_name_witness:
  "attaches_metadata memory_adapter
     \<lparr>email = ''ada@x.com'', password = ''secret'', options_data = [(''name'', ''Ada'')]\<rparr>
     \<lparr>accounts = [], current = None\<rparr>
   \<and> register memory_adapter \<lparr>email = ''ada@x.com'', password = ''secret'', name = ''Ada''\<rparr>
         \<lparr>adapter_state = \<lparr>accounts = [], current = None\<rparr>, calls = []\<rparr>
     = (Inr \<lparr>error = None\<rparr>,
        \<lparr>adapter_state =
           \<lparr>accounts = [(\<lparr>email = ''ada@x.com'', password = ''secret''\<rparr>,
                         \<lparr>uid = ''ada@x.com'', user_email = ''ada@x.com'',
                          user_metadata = [(''name'', ''Ada'')]\<rparr>)],
            current = Some \<lparr>uid = ''ada@x.com'', user_email = ''ada@x.com'',
                            user_metadata = [(''name'', ''Ada'')]\<rparr>\<rparr>,
         calls = [SignUp \<lparr>email = ''ada@x.com'', password = ''secret'',
                          options_data = [(''name'', ''Ada'')]\<rparr>]\<rparr>)
   \<and> (\<exists>r u. fst (auth_signUp memory_adapter
                   \<lparr>email = ''ada@x.com'', password = ''secret'', options_data = [(''name'', ''Ada'')]\<rparr>
                   \<lparr>accounts = [], current = None\<rparr>) = Inr r
            \<and> fst (data r) = Some u
            \<and> map_of (user_metadata u) ''name'' = Some ''Ada'')"
proof -
  have contract: "attaches_metadata memory_adapter
     \<lparr>email = ''ada@x.com'', password = ''secret'', options_data = [(''name'', ''Ada'')]\<rparr>
     \<lparr>accounts = [], current = None\<rparr>"
    by (simp add: attaches_metadata_def memory_adapter_def memory_signUp_def Let_def)
  have result: "fst (register memory_adapter \<lparr>email = ''ada@x.com'', password = ''secret'', name = ''Ada''\<rparr>
         \<lparr>adapter_state = \<lparr>accounts = [], current = None\<rparr>, calls = []\<rparr>) = Inr \<lparr>error = None\<rparr>"
    by (simp add: register_def invoke_def memory_adapter_def memory_signUp_def Let_def)
  note inst = register_attaches_name
      [where A = memory_adapter
         and d = "\<lparr>email = ''ada@x.com'', password = ''secret'', name = ''Ada''\<rparr>"
         and s = "\<lparr>accounts = [], current = None\<rparr>" and cs = "[]"]
  have after: "snd (register memory_adapter \<lparr>email = ''ada@x.com'', password = ''secret'', name = ''Ada''\<rparr>
         \<lparr>adapter_state = \<lparr>accounts = [], current = None\<rparr>, calls = []\<rparr>)
     = \<lparr>adapter_state =
           \<lparr>accounts = [(\<lparr>email = ''ada@x.com'', password = ''secret''\<rparr>,
                         \<lparr>uid = ''ada@x.com'', user_email = ''ada@x.com'',
                          user_metadata = [(''name'', ''Ada'')]\<rparr>)],
            current = Some \<lparr>uid = ''ada@x.com'', user_email = ''ada@x.com'',
                            user_metadata = [(''name'', ''Ada'')]\<rparr>\<rparr>,
         calls = [SignUp \<lparr>email = ''ada@x.com'', password = ''secret'',
                          options_data = [(''name'', ''Ada'')]\<rparr>]\<rparr>"
    using inst by (simp add: memory_adapter_def memory_signUp_def Let_def)
  have found: "\<exists>r u. fst (auth_signUp memory_adapter
                   \<lparr>email = ''ada@x.com'', password = ''secret'', options_data = [(''name'', ''Ada'')]\<rparr>
                   \<lparr>accounts = [], current = None\<rparr>) = Inr r
            \<and> fst (data r) = Some u
            \<and> map_of (user_metadata u) ''name'' = Some ''Ada''"
    using inst contract result by simp
  show ?thesis
    using contract result after found by (simp add: prod_eq_iff)
qed

text \<open>
  C7. \<^verbatim>\<open>logout\<close> calls the provider's sign-out once and turns its answer into the
  result, adding no failure of its own: it returns \<^verbatim>\<open>{error: null}\<close> exactly when the
  sign-out resolves with no error, \<^verbatim>\<open>{error: message}\<close> with the provider's message when
  it resolves with an error, and it throws only what the sign-out throws. Hence, where
  the provider reports no session and signs out without one, \<^verbatim>\<open>logout\<close> returns
  \<^verbatim>\<open>{error: null}\<close> and no failure.
\<close>

theorem logout_result:
  fixes A :: "('s, 'sess) adapter"
  shows "fst (logout A \<lparr>adapter_state = s, calls = cs\<rparr>) =
           (case fst (auth_signOut A s) of
              Inl t \<Rightarrow> Inl t
            | Inr r \<Rightarrow> Inr \<lparr>error = map_option message (err r)\<rparr>)
       \<and> ((fst (logout A \<lparr>adapter_state = s, calls = cs\<rparr>) = Inr \<lparr>error = None\<rparr>)
            = (\<exists>r. fst (auth_signOut A s) = Inr r \<and> err r = None))
       \<and> (fst (auth_signOut A s) = Inr r \<and> err r = Some e \<longrightarrow>
            fst (logout A \<lparr>adapter_state = s, calls = cs\<rparr>) = Inr \<lparr>error = Some (message e)\<rparr>)
       \<and> snd (logout A \<lparr>adapter_state = s, calls = cs\<rparr>) =
           \<lparr>adapter_state = snd (auth_signOut A s), calls = cs @ [SignOut]\<rparr>
       \<and> (no_session A s \<and> signs_out_without_session A s \<longrightarrow>
            fst (logout A \<lparr>adapter_state = s, calls = cs\<rparr>) = Inr \<lparr>error = None\<rparr>)"
  by (auto simp: logout_def invoke_eq no_session_def signs_out_without_session_def
        split: sum.splits option.splits)

theorem logout_result_witness:
  "no_session offline_adapter \<lparr>accounts = [], current = None\<rparr>
   \<and> signs_out_without_session offline_adapter \<lparr>accounts = [], current = None\<rparr>
   \<and> logout offline_adapter \<lparr>adapter_state = \<lparr>accounts = [], current = None\<rparr>, calls = []\<rparr>
     = (Inr \<lparr>error = None\<rparr>,
        \<lparr>adapter_state = \<lparr>accounts = [], current = None\<rparr>, calls = [SignOut]\<rparr>)
   \<and> fst (auth_signOut offline_adapter
          \<lparr>accounts = [], current = Some \<lparr>uid = ''1'', user_email = ''a@x.com'', user_metadata = []\<rparr>\<rparr>)
     = Inr \<lparr>data = (), err = Some (AuthError ''Failed to fetch'')\<rparr>
   \<and> fst (logout offline_adapter
          \<lparr>adapter_state =
             \<lparr>accounts = [],
              current = Some \<lparr>uid = ''1'', user_email = ''a@x.com'', user_metadata = []\<rparr>\<rparr>,
           calls = []\<rparr>)
     = Inr \<lparr>error = Some ''Failed to fetch''\<rparr>"
proof -
  have none: "no_session offline_adapter \<lparr>accounts = [], current = None\<rparr>"
    by (simp add: no_session_def offline_adapter_def memory_adapter_def)
  have contract: "signs_out_without_session offline_adapter \<lparr>accounts = [], current = None\<rparr>"
    by (simp add: signs_out_without_session_def no_session_def offline_adapter_def memory_adapter_def)
  have failing: "fst (auth_signOut offline_adapter
          \<lparr>accounts = [], current = Some \<lparr>uid = ''1'', user_email = ''a@x.com'', user_metadata = []\<rparr>\<rparr>)
     = Inr \<lparr>data = (), err = Some (AuthError ''Failed to fetch'')\<rparr>"
    by (simp add: offline_adapter_def memory_adapter_def)
  have signed_out: "logout offline_adapter
        \<lparr>adapter_state = \<lparr>accounts = [], current = None\<rparr>, calls = []\<rparr>
     = (Inr \<lparr>error = None\<rparr>,
        \<lparr>adapter_state = \<lparr>accounts = [], current = None\<rparr>, calls = [SignOut]\<rparr>)"
    using none contract
      logout_result
        [where A = offline_adapter and s = "\<lparr>accounts = [], current = None\<rparr>" and cs = "[]"]
    by (simp add: prod_eq_iff offline_adapter_def memory_adapter_def)
  have refused: "fst (logout offline_adapter
          \<lparr>adapter_state =
             \<lparr>accounts = [],
              current = Some \<lparr>uid = ''1'', user_email = ''a@x.com'', user_metadata = []\<rparr>\<rparr>,
           calls = []\<rparr>)
     = Inr \<lparr>error = Some ''Failed to fetch''\<rparr>"
    using failing
      logout_result
        [where A = offline_adapter
           and s = "\<lparr>accounts = [],
                     current = Some \<lparr>uid = ''1'', user_email = ''a@x.com'', user_metadata = []\<rparr>\<rparr>"
           and r = "\<lparr>data = (), err = Some (AuthError ''Failed to fetch'')\<rparr>"
           and e = "AuthError ''Failed to fetch''" and cs = "[]"]
    by simp
  show ?thesis
    using none contract signed_out failing refused by simp
qed

text \<open>
  C8. \<^verbatim>\<open>getCurrentUser\<close> and \<^verbatim>\<open>getSession\<close> only read: where the provider answers
  that there is no user, or no session, they return \<^verbatim>\<open>null\<close> and do not throw, also
  when the answer carries an error; each invokes the provider's read once and nothing
  else, and the provider's state afterwards is the one that read left, unchanged when
  the provider's read changes nothing.
\<close>

theorem reads_do_not_mutate:
  fixes A :: "('s, 'sess) adapter"
  shows "(fst (auth_getUser A s) = Inr ru \<and> user (data ru) = None \<longrightarrow>
            fst (getCurrentUser A \<lparr>adapter_state = s, calls = cs\<rparr>) = Inr None)
       \<and> (fst (auth_getSession A s) = Inr rs \<and> session (data rs) = None \<longrightarrow>
            fst (getSession A \<lparr>adapter_state = s, calls = cs\<rparr>) = Inr None)
       \<and> snd (getCurrentUser A \<lparr>adapter_state = s, calls = cs\<rparr>) =
           \<lparr>adapter_state = snd (auth_getUser A s), calls = cs @ [GetUser]\<rparr>
       \<and> snd (getSession A \<lparr>adapter_state = s, calls = cs\<rparr>) =
           \<lparr>adapter_state = snd (auth_getSession A s), calls = cs @ [GetSession]\<rparr>
       \<and> (snd (auth_getUser A s) = s \<longrightarrow>
            adapter_state (snd (getCurrentUser A \<lparr>adapter_state = s, calls = cs\<rparr>)) = s)
       \<and> (snd (auth_getSession A s) = s \<longrightarrow>
            adapter_state (snd (getSession A \<lparr>adapter_state = s, calls = cs\<rparr>)) = s)"
  by (auto simp: getCurrentUser_def getSession_def invoke_eq split: sum.splits)

theorem reads_do_not_mutate_witness:
  "getCurrentUser memory_adapter \<lparr>adapter_state = \<lparr>accounts = [], current = None\<rparr>, calls = []\<rparr>
     = (Inr None, \<lparr>adapter_state = \<lparr>accounts = [], current = None\<rparr>, calls = [GetUser]\<rparr>)
   \<and> getSession memory_adapter \<lparr>adapter_state = \<lparr>accounts = [], current = None\<rparr>, calls = []\<rparr>
     = (Inr None, \<lparr>adapter_state = \<lparr>accounts = [], current = None\<rparr>, calls = [GetSession]\<rparr>)"
  using reads_do_not_mutate
      [where A = memory_adapter and s = "\<lparr>accounts = [], current = None\<rparr>"
         and ru = "\<lparr>data = \<lparr>user = None\<rparr>, err = Some (AuthError ''Auth session missing!'')\<rparr>"
         and rs = "\<lparr>data = \<lparr>session = None\<rparr>, err = None\<rparr>" and cs = "[]"]
  by (simp add: memory_adapter_def prod_eq_iff)


section \<open>Properties of LoginPage\<close>



lemma resume_nonempty_error_fails:
  "m \<noteq> [] \<Longrightarrow>
   handleSubmit_resume (Inr (Some \<lparr>error = Some m\<rparr>)) st =
     (st\<lparr>page_error := Some m, loading := False\<rparr>, [])"
  by (simp add: handleSubmit_resume_def truthy_def)

lemma resume_rejected_stays:
  "handleSubmit_resume (Inl t) st = (st, [])"
  by (simp add: handleSubmit_resume_def)

text \<open>
  The empty message reaches the page: \<^verbatim>\<open>login\<close> hands on whatever message the
  provider's error carries.
\<close>

lemma login_keeps_empty_message:
  fixes A :: "('s, 'sess) adapter"
  assumes "fst (auth_signInWithPassword A \<lparr>email = email d, password = password d\<rparr> s) = Inr r"
    and "err r = Some (AuthError [])"
  shows "fst (login A d \<lparr>adapter_state = s, calls = cs\<rparr>) = Inr \<lparr>error = Some []\<rparr>"
  using assms by (simp add: login_def invoke_eq split: sum.splits)

text \<open>
  \<^verbatim>\<open>handleSubmit\<close> has no check of \<^verbatim>\<open>loading\<close> of its own: a submit event delivered
  while a call is pending calls \<^verbatim>\<open>login\<close> again.
\<close>

lemma handleSubmit_has_no_guard:
  "handleSubmit b (fst (handleSubmit a st)) =
     (st\<lparr>loading := True, page_error := None\<rparr>, [CallLogin b])"
  by (simp add: handleSubmit_def)





text \<open>
  C4. The specification has the page load \<^verbatim>\<open>/polls\<close> in full when \<^verbatim>\<open>login\<close> returns
  \<^verbatim>\<open>{error: null}\<close>, and not navigate when the result carries an error that is not
  \<^verbatim>\<open>null\<close>. The first half holds (\<open>resume_null_error_navigates\<close>), and the second for
  every message that is not empty (\<open>resume_nonempty_error_fails\<close>). For the empty
  message the second fails: \<^verbatim>\<open>if (result?.error)\<close> tests truthiness, the empty string is
  falsy, and after a submission that \<^verbatim>\<open>login\<close> answers with \<^verbatim>\<open>{error: ""}\<close> the page
  assigns \<^verbatim>\<open>/polls\<close> to \<^verbatim>\<open>window.location.href\<close>, although \<^verbatim>\<open>login\<close> reported a failure.
\<close>

theorem empty_message_navigates:
  "handleSubmit \<lparr>email = ''a@x.com'', password = ''wrong''\<rparr> initial_page =
     (\<lparr>page_error = None, loading = True\<rparr>,
      [CallLogin \<lparr>email = ''a@x.com'', password = ''wrong''\<rparr>])
   \<and> handleSubmit_resume (Inr (Some \<lparr>error = Some ''''\<rparr>))
        (fst (handleSubmit \<lparr>email = ''a@x.com'', password = ''wrong''\<rparr> initial_page)) =
     (\<lparr>page_error = None, loading = True\<rparr>, [SetLocationHref ''/polls''])
   \<and> snd (handleSubmit \<lparr>email = ''a@x.com'', password = ''wrong''\<rparr> initial_page)
     @ snd (handleSubmit_resume (Inr (Some \<lparr>error = Some ''''\<rparr>))
        (fst (handleSubmit \<lparr>email = ''a@x.com'', password = ''wrong''\<rparr> initial_page))) =
     [CallLogin \<lparr>email = ''a@x.com'', password = ''wrong''\<rparr>, SetLocationHref ''/polls'']"
  by (simp add: initial_page_def handleSubmit_def handleSubmit_resume_def truthy_def)

text \<open>
  C5. The specification has every result \<^verbatim>\<open>{error: m}\<close> with \<open>m\<close> not \<^verbatim>\<open>null\<close> put the
  page in its failed state, showing exactly \<open>m\<close>, with the form enabled again. That
  holds for every message that is not empty (\<open>resume_nonempty_error_fails\<close>). For the
  empty message it fails: the continuation of \<^verbatim>\<open>handleSubmit\<close> stores no error, leaves
  \<^verbatim>\<open>loading\<close> true, so that the button stays disabled, and navigates.
\<close>

theorem empty_message_not_failed:
  "handleSubmit_resume (Inr (Some \<lparr>error = Some ''''\<rparr>)) \<lparr>page_error = None, loading = True\<rparr> =
     (\<lparr>page_error = None, loading = True\<rparr>, [SetLocationHref ''/polls''])
   \<and> render (fst (handleSubmit_resume (Inr (Some \<lparr>error = Some ''''\<rparr>))
        \<lparr>page_error = None, loading = True\<rparr>)) =
     \<lparr>error_text = None, button_disabled = True, button_label = ''Logging in...''\<rparr>"
  by (simp add: handleSubmit_resume_def truthy_def render_def)


section \<open>Properties of PollActions\<close>

text \<open>
  C1. The ownership guard is exhaustive over its three cases: with no user it is false,
  with a user whose id differs from the poll's owner id it is false, and it is true
  exactly when there is a user and the two ids are equal. The edit and delete controls
  are rendered exactly when it is true.
\<close>

theorem canModify_exhaustive:
  fixes p :: "'o poll"
  shows "canModify None p = False
       \<and> (uid u \<noteq> user_id p \<longrightarrow> canModify (Some u) p = False)
       \<and> (canModify currentUser p = (\<exists>v. currentUser = Some v \<and> uid v = user_id p))
       \<and> (mutation_controls (PollActions currentUser p) \<noteq> []) = canModify currentUser p"
  by (auto simp: canModify_def PollActions_def mutation_controls_def split: option.splits)

theorem canModify_exhaustive_witness:
  "canModify None \<lparr>pid = ''p1'', question = ''Tea?'', options = [''yes'', ''no''], user_id = ''2''\<rparr> = False
   \<and> canModify (Some \<lparr>uid = ''1'', user_email = ''a@x.com'', user_metadata = []\<rparr>)
        \<lparr>pid = ''p1'', question = ''Tea?'', options = [''yes'', ''no''], user_id = ''2''\<rparr> = False
   \<and> canModify (Some \<lparr>uid = ''1'', user_email = ''a@x.com'', user_metadata = []\<rparr>)
        \<lparr>pid = ''p1'', question = ''Tea?'', options = [''yes'', ''no''], user_id = ''1''\<rparr>
   \<and> mutation_controls (PollActions (Some \<lparr>uid = ''1'', user_email = ''a@x.com'', user_metadata = []\<rparr>)
        \<lparr>pid = ''p1'', question = ''Tea?'', options = [''yes'', ''no''], user_id = ''1''\<rparr>)
       = [EditButton ''/polls/p1/edit'', DeleteButton]"
  using
    canModify_exhaustive
      [where p = "\<lparr>pid = ''p1'', question = ''Tea?'', options = [''yes'', ''no''], user_id = ''2''\<rparr>"
         and u = "\<lparr>uid = ''1'', user_email = ''a@x.com'', user_metadata = []\<rparr>"
         and currentUser = None]
    canModify_exhaustive
      [where p = "\<lparr>pid = ''p1'', question = ''Tea?'', options = [''yes'', ''no''], user_id = ''1''\<rparr>"
         and u = "\<lparr>uid = ''2'', user_email = ''b@x.com'', user_metadata = []\<rparr>"
         and currentUser = "Some \<lparr>uid = ''1'', user_email = ''a@x.com'', user_metadata = []\<rparr>"]
  by (simp add: PollActions_def mutation_controls_def canModify_def)

text \<open>
  C9. The delete action is invoked only after the blocking confirmation has answered
  yes: the prompt is the first effect of every run of the handler, \<^verbatim>\<open>deletePoll\<close> is
  among the effects exactly when the answer is yes, and with the answer no the prompt
  is the only effect, so that neither the deletion nor the reload takes place.
\<close>

theorem handleDelete_needs_confirmation:
  fixes p :: "'o poll"
  shows "hd (handleDelete p answer deleted) = Confirm ''Are you sure you want to delete this poll?''
       \<and> (CallDeletePoll i \<in> set (handleDelete p answer deleted) \<longrightarrow> answer \<and> i = pid p)
       \<and> (answer \<longrightarrow> CallDeletePoll (pid p) \<in> set (handleDelete p answer deleted))
       \<and> (LocationReload \<in> set (handleDelete p answer deleted) \<longrightarrow> answer)
       \<and> handleDelete p False deleted = [Confirm ''Are you sure you want to delete this poll?'']"
  by (auto simp: handleDelete_def split: sum.splits if_splits)

theorem handleDelete_needs_confirmation_witness:
  "handleDelete \<lparr>pid = ''p1'', question = ''Tea?'', options = [''yes'', ''no''], user_id = ''1''\<rparr> True (Inr ())
     = [Confirm ''Are you sure you want to delete this poll?'', CallDeletePoll ''p1'', LocationReload]
   \<and> handleDelete \<lparr>pid = ''p1'', question = ''Tea?'', options = [''yes'', ''no''], user_id = ''1''\<rparr> False (Inr ())
     = [Confirm ''Are you sure you want to delete this poll?'']"
  using handleDelete_needs_confirmation
    [of "\<lparr>pid = ''p1'', question = ''Tea?'', options = [''yes'', ''no''], user_id = ''1''\<rparr>" True "Inr ()" "''p1''"]
  by (simp add: handleDelete_def)

end
